theory Spec2Isabelle
  imports Main "HOL-Library.Sublist"
begin

section \<open>JavaScript values and strings\<close>

text \<open>
  The handler of \<^verbatim>\<open>POST /api/exchangetoken\<close> in \<^verbatim>\<open>server-simple.js\<close> reads two
  properties of \<^verbatim>\<open>req.body\<close>. The body parsers (\<^verbatim>\<open>express.json\<close>,
  \<^verbatim>\<open>express.urlencoded\<close>) deliver any JSON value there, so the properties are
  modelled as JavaScript values, with \<open>JUndefined\<close> for a property the body lacks.
  The body itself is the object the parser built: a map from property names to values.
  A string is the list of its code units; \<open>char\<close> holds the code units 0 to 255 (for a
  header value this is exactly what Node delivers, which decodes headers as Latin-1).
  \<open>JNum\<close> stands for a JSON number that is an integer of magnitude below \<open>10^21\<close>,
  which JavaScript prints in plain decimal notation.
\<close>

datatype jsval =
    JUndefined
  | JNull
  | JBool bool
  | JNum int
  | JStr string
  | JArr "jsval list"
  | JObj "(string \<times> jsval) list"

text \<open>\<^verbatim>\<open>!!v\<close>: the values that are falsy are undefined, null, false, 0 and the empty string.\<close>

fun truthy :: "jsval \<Rightarrow> bool" where
  "truthy JUndefined = False"
| "truthy JNull = False"
| "truthy (JBool b) = b"
| "truthy (JNum n) = (n \<noteq> 0)"
| "truthy (JStr s) = (s \<noteq> [])"
| "truthy (JArr xs) = True"
| "truthy (JObj kvs) = True"

text \<open>
  \<^verbatim>\<open>const { oauth_code, domain } = req.body\<close>: a property the object lacks reads as
  undefined.
\<close>

definition property :: "(string \<rightharpoonup> jsval) \<Rightarrow> string \<Rightarrow> jsval" where
  "property req_body k = (case req_body k of None \<Rightarrow> JUndefined | Some v \<Rightarrow> v)"

text \<open>
  An environment variable is a string or undefined; \<^verbatim>\<open>!!process.env.X\<close> holds when it is
  set to a non-empty string.
\<close>

definition truthy_env :: "string option \<Rightarrow> bool" where
  "truthy_env v = (case v of None \<Rightarrow> False | Some s \<Rightarrow> s \<noteq> [])"

text \<open>The string of a variable; the handler reads it only after the check that it is set.\<close>

definition str :: "string option \<Rightarrow> string" where
  "str v = (case v of None \<Rightarrow> [] | Some s \<Rightarrow> s)"

subsection \<open>String methods\<close>

definition startsWith :: "string \<Rightarrow> string \<Rightarrow> bool" where
  "startsWith s t = (take (length t) s = t)"

text \<open>\<^verbatim>\<open>s.includes(t)\<close>: \<open>t\<close> occurs in \<open>s\<close> at some position.\<close>

fun includes_str :: "string \<Rightarrow> string \<Rightarrow> bool" where
  "includes_str [] t = (t = [])"
| "includes_str (c # s) t = (startsWith (c # s) t \<or> includes_str s t)"

text \<open>\<^verbatim>\<open>s.substring(0, n)\<close>, the only form the handler uses.\<close>

definition substring :: "string \<Rightarrow> nat \<Rightarrow> string" where
  "substring s n = take n s"

text \<open>
  \<^verbatim>\<open>toLowerCase\<close> on code units 0 to 255: the upper-case letters are A to Z and the
  Latin-1 letters 192 to 222 except the multiplication sign 215; each has its lower-case
  form 32 places further.
\<close>

definition is_upper :: "char \<Rightarrow> bool" where
  "is_upper c =
     (let n = (of_char c :: nat)
      in (65 \<le> n \<and> n \<le> 90) \<or> (192 \<le> n \<and> n \<le> 222 \<and> n \<noteq> 215))"

definition lower_char :: "char \<Rightarrow> char" where
  "lower_char c = (if is_upper c then char_of ((of_char c :: nat) + 32) else c)"

definition toLowerCase :: "string \<Rightarrow> string" where
  "toLowerCase s = map lower_char s"

text \<open>
  Two strings differ only in letter case: same length, and at each position the same
  character or an upper-case letter against its lower-case form.
\<close>

definition case_variant :: "char \<Rightarrow> char \<Rightarrow> bool" where
  "case_variant c d =
     (c = d
      \<or> (is_upper c \<and> (of_char d :: nat) = of_char c + 32)
      \<or> (is_upper d \<and> (of_char c :: nat) = of_char d + 32))"

definition differ_only_in_case :: "string \<Rightarrow> string \<Rightarrow> bool" where
  "differ_only_in_case s t = list_all2 case_variant s t"

subsection \<open>Conversion to string\<close>

text \<open>
  A template literal and the \<^verbatim>\<open>URLSearchParams\<close> constructor convert a value with
  \<^verbatim>\<open>ToString\<close>. An array joins its elements with commas, undefined and null elements
  as the empty string. An object parsed from JSON prints as \<^verbatim>\<open>[object Object]\<close>,
  unless it has a property \<^verbatim>\<open>toString\<close> of its own: that property is not callable,
  and the conversion raises a TypeError. An error is represented by its
  \<^verbatim>\<open>message\<close>, the only part of it the handler sends; the texts of the errors the
  engine raises are V8's.
\<close>

definition cannot_convert :: string where
  "cannot_convert = ''Cannot convert object to primitive value''"

definition not_a_function :: string where
  "not_a_function = ''oauth_code.substring is not a function''"

fun digits :: "nat \<Rightarrow> string" where
  "digits n = (if n < 10 then [char_of (48 + n)] else digits (n div 10) @ [char_of (48 + n mod 10)])"

definition show_int :: "int \<Rightarrow> string" where
  "show_int i = (if i < 0 then CHR ''-'' # digits (nat (- i)) else digits (nat i))"

fun ToString :: "jsval \<Rightarrow> string + string"
  and join :: "jsval list \<Rightarrow> string + string"
  and element :: "jsval \<Rightarrow> string + string" where
  "ToString JUndefined = Inr ''undefined''"
| "ToString JNull = Inr ''null''"
| "ToString (JBool b) = Inr (if b then ''true'' else ''false'')"
| "ToString (JNum n) = Inr (show_int n)"
| "ToString (JStr s) = Inr s"
| "ToString (JArr xs) = join xs"
| "ToString (JObj kvs) =
     (if ''toString'' \<in> fst ` set kvs then Inl cannot_convert else Inr ''[object Object]'')"
| "join [] = Inr []"
| "join (x # xs) =
     (case element x of
        Inl m \<Rightarrow> Inl m
      | Inr s \<Rightarrow>
          (if xs = [] then Inr s
           else (case join xs of Inl m \<Rightarrow> Inl m | Inr r \<Rightarrow> Inr (s @ '','' @ r))))"
| "element JUndefined = Inr []"
| "element JNull = Inr []"
| "element (JBool b) = ToString (JBool b)"
| "element (JNum n) = ToString (JNum n)"
| "element (JStr s) = ToString (JStr s)"
| "element (JArr xs) = ToString (JArr xs)"
| "element (JObj kvs) = ToString (JObj kvs)"

subsection \<open>Form encoding\<close>

text \<open>
  \<^verbatim>\<open>new URLSearchParams({...}).toString()\<close>: the
  \<^verbatim>\<open>application/x-www-form-urlencoded\<close> serialisation of the pairs, in order. Each
  string is encoded in UTF-8; a byte that is an ASCII letter or digit or one of
  \<^verbatim>\<open>* - . _\<close> stands for itself, a space becomes \<^verbatim>\<open>+\<close>, every other byte is
  percent-encoded.
\<close>

definition utf8 :: "char \<Rightarrow> nat list" where
  "utf8 c = (let n = (of_char c :: nat) in if n < 128 then [n] else [192 + n div 64, 128 + n mod 64])"

definition unreserved :: "nat \<Rightarrow> bool" where
  "unreserved b =
     ((48 \<le> b \<and> b \<le> 57) \<or> (65 \<le> b \<and> b \<le> 90) \<or> (97 \<le> b \<and> b \<le> 122)
      \<or> b = 42 \<or> b = 45 \<or> b = 46 \<or> b = 95)"

definition hex_digit :: "nat \<Rightarrow> char" where
  "hex_digit d = (if d < 10 then char_of (48 + d) else char_of (55 + d))"

definition encode_byte :: "nat \<Rightarrow> string" where
  "encode_byte b =
     (if unreserved b then [char_of b]
      else if b = 32 then ''+''
      else [CHR ''%'', hex_digit (b div 16), hex_digit (b mod 16)])"

definition urlencode :: "string \<Rightarrow> string" where
  "urlencode s = concat (map encode_byte (concat (map utf8 s)))"

fun URLSearchParams_toString :: "(string \<times> string) list \<Rightarrow> string" where
  "URLSearchParams_toString [] = []"
| "URLSearchParams_toString ((k, v) # ps) =
     urlencode k @ ''='' @ urlencode v
       @ (if ps = [] then [] else ''&'' @ URLSearchParams_toString ps)"

text \<open>\<^verbatim>\<open>Buffer.byteLength(s)\<close>: the length of the UTF-8 encoding.\<close>

definition byteLength :: "string \<Rightarrow> nat" where
  "byteLength s = length (concat (map utf8 s))"

section \<open>The platform\<close>

text \<open>
  Two library functions the handler calls are parameters of the model: the URL parser
  (\<^verbatim>\<open>new URL(s)\<close>, of which the handler reads \<^verbatim>\<open>hostname\<close> and
  \<^verbatim>\<open>pathname\<close>) and \<^verbatim>\<open>JSON.parse\<close>. Each returns \<open>Inl\<close> with the message of the
  error it throws, or \<open>Inr\<close> with its result. The third parameter is the message of
  the RangeError with which the response layer refuses a status code outside 100 to 999.
\<close>

record parsed_url =
  hostname :: string
  pathname :: string

record platform =
  URL_new :: "string \<Rightarrow> string + parsed_url"
  JSON_parse :: "string \<Rightarrow> string + jsval"
  Invalid_status :: "nat \<Rightarrow> string"

section \<open>Requests, responses, effects\<close>

datatype header_value = HStr string | HNum nat

text \<open>The \<^verbatim>\<open>requestOptions\<close> object, with the body written to the request.\<close>

record outbound_request =
  req_hostname :: string
  req_port :: nat
  req_path :: string
  req_method :: string
  req_headers :: "(string \<times> header_value) list"
  req_write :: string

text \<open>
  What the upstream sends: a status code, the \<^verbatim>\<open>content-type\<close> header if there is
  one, and the body in the chunks of the \<^verbatim>\<open>data\<close> events.
\<close>

record upstream_response =
  status :: nat
  content_type :: "string option"
  chunks :: "string list"

text \<open>
  The promise around \<^verbatim>\<open>https.request\<close> is settled by the first of two events: the
  response's \<^verbatim>\<open>end\<close> resolves it, the request's \<^verbatim>\<open>error\<close> rejects it with
  that error. With neither event it stays pending: the handler sets no timeout.
\<close>

datatype upstream_outcome =
    End upstream_response
  | Error string
  | Silent

type_synonym network = "outbound_request \<Rightarrow> upstream_outcome"

text \<open>The value the promise resolves to.\<close>

record responseData =
  statusCode :: nat
  body :: string
  contentType :: string

text \<open>
  The body of an answer: one of the objects the handler passes to \<^verbatim>\<open>res.json\<close>, one
  constructor for each shape, or no body at all.
\<close>

datatype reply_body =
    Error_message string string
  | Error_env string string bool bool bool
  | Error_html string string nat string string
  | Json jsval
  | No_body

type_synonym reply = "nat \<times> reply_body"

text \<open>The \<^verbatim>\<open>error\<close> property of an error object the relay builds.\<close>

fun error_kind :: "reply_body \<Rightarrow> string option" where
  "error_kind (Error_message e m) = Some e"
| "error_kind (Error_env e m a b c) = Some e"
| "error_kind (Error_html e m s ct p) = Some e"
| "error_kind (Json j) = None"
| "error_kind No_body = None"

text \<open>
  The effects of one call, in order: the lines written to the console and the request
  sent upstream. \<open>Log_stack\<close> is the line that prints \<^verbatim>\<open>error.stack\<close>, whose text
  is the engine's.
\<close>

datatype event =
    Log_received
  | Log_missing_env
  | Log_calling string
  | Log_params string string string
  | Https_request outbound_request
  | Log_response nat string bool
  | Log_request_error string
  | Log_success
  | Log_html string
  | Log_exception string
  | Log_stack

text \<open>
  A computation inside the \<^verbatim>\<open>try\<close> block returns a value, throws an error or never
  completes, after the effects it has had.
\<close>

datatype 'a completion = Return 'a | Throw string | Pending

type_synonym 'a effectful = "event list \<times> 'a completion"

definition and_then :: "'a effectful \<Rightarrow> ('a \<Rightarrow> 'b effectful) \<Rightarrow> 'b effectful" where
  "and_then m f =
     (case m of
        (t, Return x) \<Rightarrow> (case f x of (t', c) \<Rightarrow> (t @ t', c))
      | (t, Throw e) \<Rightarrow> (t, Throw e)
      | (t, Pending) \<Rightarrow> (t, Pending))"

definition lift :: "string + 'a \<Rightarrow> 'a effectful" where
  "lift r = (case r of Inl e \<Rightarrow> ([], Throw e) | Inr x \<Rightarrow> ([], Return x))"

definition log :: "event \<Rightarrow> unit effectful" where
  "log e = ([e], Return ())"

text \<open>
  \<^verbatim>\<open>res.status(s).json(v)\<close>, as Express and Node carry it out. A status code outside
  100 to 999 is refused with a RangeError, thrown inside the \<^verbatim>\<open>try\<close> block. The
  informational codes and 204, 205 and 304 are sent without a body, whatever is passed
  to \<^verbatim>\<open>json\<close>. Any other code is sent with the serialised value as its body.
\<close>

definition no_body :: "nat \<Rightarrow> bool" where
  "no_body s = (s < 200 \<or> s = 204 \<or> s = 205 \<or> s = 304)"

definition res_status_json :: "platform \<Rightarrow> nat \<Rightarrow> reply_body \<Rightarrow> reply effectful" where
  "res_status_json P s v =
     (if s < 100 \<or> 999 < s then ([], Throw (Invalid_status P s))
      else if no_body s then ([], Return (s, No_body))
      else ([], Return (s, v)))"

section \<open>The token exchange handler\<close>

text \<open>Lines 90 to 93: the token endpoint.\<close>

definition broker_url :: string where
  "broker_url = ''https://oauth.bitrix.info/oauth/token/''"

definition tokenUrl_of :: "string \<Rightarrow> jsval \<Rightarrow> string + string" where
  "tokenUrl_of clientId domain =
     (let useOAuthServer = startsWith clientId ''local.''
      in if useOAuthServer then Inr broker_url
         else (case ToString domain of
                 Inl e \<Rightarrow> Inl e
               | Inr d \<Rightarrow> Inr (''https://'' @ d @ ''/oauth/token/'')))"

text \<open>Lines 95 to 101: the form body.\<close>

definition postData_of :: "string \<Rightarrow> string \<Rightarrow> jsval \<Rightarrow> string \<Rightarrow> string + string" where
  "postData_of clientId clientSecret oauth_code redirectUri =
     (case ToString oauth_code of
        Inl e \<Rightarrow> Inl e
      | Inr code \<Rightarrow>
          Inr (URLSearchParams_toString
                 [(''grant_type'', ''authorization_code''),
                  (''client_id'', clientId),
                  (''client_secret'', clientSecret),
                  (''code'', code),
                  (''redirect_uri'', redirectUri)]))"

text \<open>
  Lines 104 to 109: the arguments of the log call are evaluated first, and
  \<^verbatim>\<open>oauth_code.substring\<close> is a function only when the code is a string.
\<close>

definition log_params :: "string \<Rightarrow> jsval \<Rightarrow> string \<Rightarrow> unit effectful" where
  "log_params clientId oauth_code redirectUri =
     (case oauth_code of
        JStr c \<Rightarrow> log (Log_params (substring clientId 20 @ ''...'') (substring c 20 @ ''...'') redirectUri)
      | _ \<Rightarrow> ([], Throw not_a_function))"

text \<open>Lines 111 to 123.\<close>

definition requestOptions_of :: "parsed_url \<Rightarrow> string \<Rightarrow> outbound_request" where
  "requestOptions_of parsedUrl postData =
     \<lparr>req_hostname = hostname parsedUrl,
      req_port = 443,
      req_path = pathname parsedUrl,
      req_method = ''POST'',
      req_headers =
        [(''Content-Type'', HStr ''application/x-www-form-urlencoded''),
         (''Content-Length'', HNum (byteLength postData)),
         (''Accept'', HStr ''application/json''),
         (''User-Agent'', HStr ''JBmarks-TokenExchange/1.0'')],
      req_write = postData\<rparr>"

text \<open>Lines 127 to 140: what the \<^verbatim>\<open>end\<close> event resolves the promise to.\<close>

definition on_end :: "upstream_response \<Rightarrow> responseData" where
  "on_end response =
     (let data = foldl (@) [] (chunks response);
          contentType = toLowerCase (case content_type response of None \<Rightarrow> [] | Some v \<Rightarrow> v)
      in \<lparr>statusCode = status response, body = data, contentType = contentType\<rparr>)"

text \<open>Lines 125 to 149: the request is sent once and the handler awaits the promise.\<close>

definition await_response :: "network \<Rightarrow> outbound_request \<Rightarrow> responseData effectful" where
  "await_response net rq =
     (case net rq of
        End response \<Rightarrow>
          (let rd = on_end response
           in ([Https_request rq,
                Log_response (statusCode rd) (contentType rd)
                  (includes_str (contentType rd) ''application/json'')],
               Return rd))
      | Error e \<Rightarrow> ([Https_request rq, Log_request_error e], Throw e)
      | Silent \<Rightarrow> ([Https_request rq], Pending))"

text \<open>Lines 151 to 165: the classification of the response.\<close>

definition classify :: "platform \<Rightarrow> responseData \<Rightarrow> reply effectful" where
  "classify P rd =
     (if includes_str (contentType rd) ''application/json'' then
        and_then (lift (JSON_parse P (body rd))) (\<lambda>jsonResponse.
        and_then (log Log_success) (\<lambda>_.
        res_status_json P (statusCode rd) (Json jsonResponse)))
      else
        (let bodyPreview = substring (body rd) 200
         in and_then (log (Log_html bodyPreview)) (\<lambda>_.
            res_status_json P 502
              (Error_html ''bitrix_returned_html'' ''Bitrix returned HTML instead of JSON''
                 (statusCode rd) (contentType rd) bodyPreview))))"

text \<open>Lines 88 to 165, with the credentials and the two request fields in hand.\<close>

definition exchange ::
  "platform \<Rightarrow> string \<Rightarrow> string \<Rightarrow> string \<Rightarrow> jsval \<Rightarrow> jsval \<Rightarrow> network \<Rightarrow> reply effectful" where
  "exchange P clientId clientSecret redirectUri oauth_code domain net =
     and_then (lift (tokenUrl_of clientId domain)) (\<lambda>tokenUrl.
     and_then (lift (postData_of clientId clientSecret oauth_code redirectUri)) (\<lambda>postData.
     and_then (log (Log_calling tokenUrl)) (\<lambda>_.
     and_then (log_params clientId oauth_code redirectUri) (\<lambda>_.
     and_then (lift (URL_new P tokenUrl)) (\<lambda>parsedUrl.
     and_then (await_response net (requestOptions_of parsedUrl postData)) (\<lambda>responseData.
     classify P responseData))))))"

text \<open>Lines 52 to 166: the \<^verbatim>\<open>try\<close> block.\<close>

definition try_block ::
  "platform \<Rightarrow> (string \<rightharpoonup> string) \<Rightarrow> (string \<rightharpoonup> jsval) \<Rightarrow> network \<Rightarrow> reply effectful" where
  "try_block P env req_body net =
     and_then (log Log_received) (\<lambda>_.
     (let oauth_code = property req_body ''oauth_code'';
          domain = property req_body ''domain''
      in if \<not> truthy oauth_code then
           res_status_json P 400
             (Error_message ''missing_oauth_code'' ''oauth_code parameter is required'')
         else if \<not> truthy domain then
           res_status_json P 400
             (Error_message ''missing_domain'' ''domain parameter is required'')
         else
           (let clientId = env ''BITRIX_CLIENT_ID'';
                clientSecret = env ''BITRIX_CLIENT_SECRET'';
                redirectUri = env ''BITRIX_REDIRECT_URI''
            in if \<not> truthy_env clientId \<or> \<not> truthy_env clientSecret \<or> \<not> truthy_env redirectUri then
                 and_then (log Log_missing_env) (\<lambda>_.
                 res_status_json P 500
                   (Error_env ''missing_env'' ''Server configuration error''
                      (truthy_env clientId) (truthy_env clientSecret) (truthy_env redirectUri)))
               else exchange P (str clientId) (str clientSecret) (str redirectUri)
                      oauth_code domain net)))"

text \<open>
  The handler: the \<^verbatim>\<open>try\<close> block and the \<^verbatim>\<open>catch\<close> of lines 167 to 174, whose
  \<^verbatim>\<open>res.status(500).json\<close> has a code that is sent with its body. The result is the
  response sent to the caller, if one is sent, and the effects.
\<close>

record result =
  response :: "reply option"
  trace :: "event list"

definition exchangetoken ::
  "platform \<Rightarrow> (string \<rightharpoonup> string) \<Rightarrow> (string \<rightharpoonup> jsval) \<Rightarrow> network \<Rightarrow> result" where
  "exchangetoken P env req_body net =
     (case try_block P env req_body net of
        (t, Return r) \<Rightarrow> \<lparr>response = Some r, trace = t\<rparr>
      | (t, Throw message) \<Rightarrow>
          \<lparr>response = Some (500, Error_message ''exception'' message),
           trace = t @ [Log_exception message, Log_stack]\<rparr>
      | (t, Pending) \<Rightarrow> \<lparr>response = None, trace = t\<rparr>)"

text \<open>What an observer reads off the effects.\<close>

fun outbound :: "event list \<Rightarrow> outbound_request list" where
  "outbound [] = []"
| "outbound (Https_request rq # es) = rq # outbound es"
| "outbound (e # es) = outbound es"

fun selected_endpoints :: "event list \<Rightarrow> string list" where
  "selected_endpoints [] = []"
| "selected_endpoints (Log_calling u # es) = u # selected_endpoints es"
| "selected_endpoints (e # es) = selected_endpoints es"

section \<open>Sample inputs\<close>

text \<open>
  Concrete inputs on which the theorems below are instantiated. The sample platform is
  the fragment of the two library functions that these inputs reach.
\<close>

definition dq :: string where
  "dq = [CHR 0x22]"

definition token_body :: string where
  "token_body =
     ''{'' @ dq @ ''access_token'' @ dq @ '':'' @ dq @ ''abc'' @ dq @ '',''
       @ dq @ ''refresh_token'' @ dq @ '':'' @ dq @ ''xyz'' @ dq @ ''}''"

definition token_payload :: jsval where
  "token_payload = JObj [(''access_token'', JStr ''abc''), (''refresh_token'', JStr ''xyz'')]"

definition tenant_url :: parsed_url where
  "tenant_url = \<lparr>hostname = ''acme.bitrix24.com'', pathname = ''/oauth/token/''\<rparr>"

definition sample_platform :: platform where
  "sample_platform =
     \<lparr>URL_new = (\<lambda>u.
        if u = ''https://acme.bitrix24.com/oauth/token/'' then Inr tenant_url
        else if u = ''https://oauth.bitrix.info/oauth/token/'' then
          Inr \<lparr>hostname = ''oauth.bitrix.info'', pathname = ''/oauth/token/''\<rparr>
        else Inl ''Invalid URL''),
      JSON_parse = (\<lambda>s.
        if s = token_body then Inr token_payload
        else Inl ''Unexpected token < in JSON at position 0''),
      Invalid_status = (\<lambda>s. ''Invalid status code: '' @ digits s)\<rparr>"

definition sample_env :: "string \<rightharpoonup> string" where
  "sample_env =
     [''BITRIX_CLIENT_ID'' \<mapsto> ''app.5f1e'',
      ''BITRIX_CLIENT_SECRET'' \<mapsto> ''s3cr3t'',
      ''BITRIX_REDIRECT_URI'' \<mapsto> ''https://relay.example/cb'']"

definition local_env :: "string \<rightharpoonup> string" where
  "local_env = sample_env(''BITRIX_CLIENT_ID'' \<mapsto> ''local.5f1e'')"

definition sample_body :: "string \<rightharpoonup> jsval" where
  "sample_body = [''oauth_code'' \<mapsto> JStr ''c0de'', ''domain'' \<mapsto> JStr ''acme.bitrix24.com'']"

definition sample_postData :: string where
  "sample_postData =
     URLSearchParams_toString
       [(''grant_type'', ''authorization_code''),
        (''client_id'', ''app.5f1e''),
        (''client_secret'', ''s3cr3t''),
        (''code'', ''c0de''),
        (''redirect_uri'', ''https://relay.example/cb'')]"

definition sample_request :: outbound_request where
  "sample_request = requestOptions_of tenant_url sample_postData"

definition json_reply :: upstream_response where
  "json_reply =
     \<lparr>status = 200, content_type = Some ''application/json'', chunks = [token_body]\<rparr>"

definition html_reply :: upstream_response where
  "html_reply =
     \<lparr>status = 404, content_type = Some ''text/html'', chunks = [''<html>'', ''</html>'']\<rparr>"

definition broken_reply :: upstream_response where
  "broken_reply =
     \<lparr>status = 200, content_type = Some ''application/json'', chunks = [''<html>'']\<rparr>"

definition mixed_reply :: upstream_response where
  "mixed_reply =
     \<lparr>status = 200, content_type = Some ''Application/JSON; Charset=UTF-8'',
      chunks =
        [''{'' @ dq @ ''access_token'' @ dq @ '':'' @ dq @ ''abc'' @ dq,
         '','' @ dq @ ''refresh_token'' @ dq @ '':'' @ dq @ ''xyz'' @ dq @ ''}'']\<rparr>"

definition bare_reply :: upstream_response where
  "bare_reply = \<lparr>status = 200, content_type = None, chunks = [token_body]\<rparr>"

section \<open>The shape of a call\<close>

lemma and_then_Return: "and_then (t, Return x) f = (t @ fst (f x), snd (f x))"
  by (simp add: and_then_def split: prod.splits)

lemma and_then_Throw: "and_then (t, Throw e) f = (t, Throw e)"
  by (simp add: and_then_def)

lemma and_then_Pending: "and_then (t, Pending) f = (t, Pending)"
  by (simp add: and_then_def)

lemma res_status_json_codes:
  "res_status_json P 400 v = ([], Return (400, v))"
  "res_status_json P 500 v = ([], Return (500, v))"
  "res_status_json P 502 v = ([], Return (502, v))"
  by (simp_all add: res_status_json_def no_body_def)

lemma fst_res_status_json: "fst (res_status_json P s v) = []"
  by (simp add: res_status_json_def)

lemmas step_simps =
  and_then_Return and_then_Throw and_then_Pending res_status_json_codes fst_res_status_json

lemma lift_simps: "lift (Inl e) = ([], Throw e)" "lift (Inr x) = ([], Return x)"
  by (simp_all add: lift_def)

lemma outbound_append: "outbound (xs @ ys) = outbound xs @ outbound ys"
proof (induction xs)
  case Nil
  show ?case by simp
next
  case (Cons e es)
  then show ?case by (cases e) simp_all
qed

lemma selected_endpoints_append:
  "selected_endpoints (xs @ ys) = selected_endpoints xs @ selected_endpoints ys"
proof (induction xs)
  case Nil
  show ?case by simp
next
  case (Cons e es)
  then show ?case by (cases e) simp_all
qed

lemma outbound_classify: "outbound (fst (classify P rd)) = []"
  by (simp add: classify_def step_simps lift_def log_def Let_def split: sum.splits)

lemma exchange_cases:
  obtains (threw) t e where
      "\<And>net. exchange P cid sec uri code dmn net = (t, Throw e)" and "outbound t = []"
    | (sent) t rq where
      "\<And>net. exchange P cid sec uri code dmn net =
         and_then (t, Return ()) (\<lambda>_. and_then (await_response net rq) (classify P))"
      and "outbound t = []"
proof (cases "tokenUrl_of cid dmn")
  case (Inl e)
  then have "\<And>net. exchange P cid sec uri code dmn net = ([], Throw e)"
    by (simp add: exchange_def lift_simps step_simps)
  then show ?thesis using threw by simp
next
  case url: (Inr tokenUrl)
  show ?thesis
  proof (cases "postData_of cid sec code uri")
    case (Inl e)
    with url have "\<And>net. exchange P cid sec uri code dmn net = ([], Throw e)"
      by (simp add: exchange_def lift_simps step_simps)
    then show ?thesis using threw by simp
  next
    case post: (Inr postData)
    show ?thesis
    proof (cases "\<exists>c. code = JStr c")
      case False
      then have "log_params cid code uri = ([], Throw not_a_function)"
        by (cases code) (simp_all add: log_params_def)
      with url post have
        "\<And>net. exchange P cid sec uri code dmn net = ([Log_calling tokenUrl], Throw not_a_function)"
        by (simp add: exchange_def lift_simps step_simps log_def)
      then show ?thesis using threw by simp
    next
      case True
      then obtain c where c: "code = JStr c" ..
      let ?t = "[Log_calling tokenUrl,
                 Log_params (substring cid 20 @ ''...'') (substring c 20 @ ''...'') uri]"
      show ?thesis
      proof (cases "URL_new P tokenUrl")
        case (Inl e)
        with url post c have "\<And>net. exchange P cid sec uri code dmn net = (?t, Throw e)"
          by (simp add: exchange_def lift_simps step_simps log_def log_params_def)
        then show ?thesis using threw by simp
      next
        case (Inr parsedUrl)
        with url post c have
          "\<And>net. exchange P cid sec uri code dmn net =
             and_then (?t, Return ())
               (\<lambda>_. and_then (await_response net (requestOptions_of parsedUrl postData))
                       (classify P))"
          by (simp add: exchange_def lift_simps step_simps log_def log_params_def)
        then show ?thesis using sent by simp
      qed
    qed
  qed
qed

lemma try_block_cases:
  obtains (early) t r where
      "\<And>net. try_block P env b net = (t, Return r)" and "outbound t = []"
    | (aborted) t e where
      "\<And>net. try_block P env b net = (t, Throw e)" and "outbound t = []"
    | (requested) t rq where
      "\<And>net. try_block P env b net =
         and_then (t, Return ()) (\<lambda>_. and_then (await_response net rq) (classify P))"
      and "outbound t = []"
proof -
  let ?code = "property b ''oauth_code''" and ?dmn = "property b ''domain''"
  let ?cid = "env ''BITRIX_CLIENT_ID''" and ?sec = "env ''BITRIX_CLIENT_SECRET''"
  let ?uri = "env ''BITRIX_REDIRECT_URI''"
  consider (a) "\<not> truthy ?code" | (b) "truthy ?code" "\<not> truthy ?dmn"
    | (c) "truthy ?code" "truthy ?dmn"
          "\<not> truthy_env ?cid \<or> \<not> truthy_env ?sec \<or> \<not> truthy_env ?uri"
    | (d) "truthy ?code" "truthy ?dmn" "truthy_env ?cid" "truthy_env ?sec" "truthy_env ?uri"
    by blast
  then show ?thesis
  proof cases
    case a
    then have "\<And>net. try_block P env b net =
        ([Log_received], Return (400, Error_message ''missing_oauth_code'' ''oauth_code parameter is required''))"
      by (simp add: try_block_def step_simps log_def)
    then show ?thesis using early by simp
  next
    case b
    then have "\<And>net. try_block P env b net =
        ([Log_received], Return (400, Error_message ''missing_domain'' ''domain parameter is required''))"
      by (simp add: try_block_def step_simps log_def)
    then show ?thesis using early by simp
  next
    case c
    then have "\<And>net. try_block P env b net =
        ([Log_received, Log_missing_env],
         Return (500, Error_env ''missing_env'' ''Server configuration error''
                        (truthy_env ?cid) (truthy_env ?sec) (truthy_env ?uri)))"
      by (simp add: try_block_def step_simps log_def Let_def)
    then show ?thesis using early by simp
  next
    case d
    then have tb: "\<And>net. try_block P env b net =
        and_then ([Log_received], Return ())
          (\<lambda>_. exchange P (str ?cid) (str ?sec) (str ?uri) ?code ?dmn net)"
      by (simp add: try_block_def log_def Let_def)
    show ?thesis
    proof (cases rule: exchange_cases [of P "str ?cid" "str ?sec" "str ?uri" ?code ?dmn])
      case (threw t e)
      with tb have "\<And>net. try_block P env b net = (Log_received # t, Throw e)"
        by (simp add: step_simps)
      then show ?thesis using threw(2) aborted by simp
    next
      case (sent t rq)
      with tb have "\<And>net. try_block P env b net =
          and_then (Log_received # t, Return ())
            (\<lambda>_. and_then (await_response net rq) (classify P))"
        by (simp add: step_simps)
      then show ?thesis using sent(2) requested by simp
    qed
  qed
qed


lemma exchangetoken_requested:
  assumes tb: "try_block P env b net =
      and_then (t, Return ()) (\<lambda>_. and_then (await_response net rq) (classify P))"
    and t: "outbound t = []"
  shows "outbound (trace (exchangetoken P env b net)) = [rq]"
    and "response (exchangetoken P env b net) =
      (case net rq of
         End r \<Rightarrow>
           (case snd (classify P (on_end r)) of
              Return x \<Rightarrow> Some x
            | Throw m \<Rightarrow> Some (500, Error_message ''exception'' m)
            | Pending \<Rightarrow> None)
       | Error m \<Rightarrow> Some (500, Error_message ''exception'' m)
       | Silent \<Rightarrow> None)"
proof -
  show "outbound (trace (exchangetoken P env b net)) = [rq]"
  proof (cases "net rq")
    case (End r)
    obtain t' c where cl: "classify P (on_end r) = (t', c)" by (cases "classify P (on_end r)")
    with outbound_classify [of P "on_end r"] have "outbound t' = []" by simp
    with End cl t show ?thesis
      by (cases c)
        (simp_all add: exchangetoken_def tb step_simps await_response_def Let_def
          outbound_append)
  next
    case (Error m)
    with t show ?thesis
      by (simp add: exchangetoken_def tb step_simps await_response_def outbound_append)
  next
    case Silent
    with t show ?thesis
      by (simp add: exchangetoken_def tb step_simps await_response_def outbound_append)
  qed
  show "response (exchangetoken P env b net) =
      (case net rq of
         End r \<Rightarrow>
           (case snd (classify P (on_end r)) of
              Return x \<Rightarrow> Some x
            | Throw m \<Rightarrow> Some (500, Error_message ''exception'' m)
            | Pending \<Rightarrow> None)
       | Error m \<Rightarrow> Some (500, Error_message ''exception'' m)
       | Silent \<Rightarrow> None)"
  proof (cases "net rq")
    case (End r)
    obtain t' c where cl: "classify P (on_end r) = (t', c)" by (cases "classify P (on_end r)")
    with End show ?thesis
      by (cases c)
        (simp_all add: exchangetoken_def tb step_simps await_response_def Let_def)
  next
    case (Error m)
    then show ?thesis
      by (simp add: exchangetoken_def tb step_simps await_response_def)
  next
    case Silent
    then show ?thesis
      by (simp add: exchangetoken_def tb step_simps await_response_def)
  qed
qed

lemma outbound_cases:
  obtains (none) "outbound (trace (exchangetoken P env b net)) = []"
    | (one) t rq where
      "try_block P env b net =
         and_then (t, Return ()) (\<lambda>_. and_then (await_response net rq) (classify P))"
      and "outbound t = []"
proof (cases rule: try_block_cases [of P env b])
  case (early t r)
  then have "outbound (trace (exchangetoken P env b net)) = []"
    by (simp add: exchangetoken_def)
  then show ?thesis by (rule none)
next
  case (aborted t e)
  then have "outbound (trace (exchangetoken P env b net)) = []"
    by (simp add: exchangetoken_def outbound_append)
  then show ?thesis by (rule none)
next
  case (requested t rq)
  then show ?thesis using one by blast
qed

lemma response_after_request:
  assumes "outbound (trace (exchangetoken P env b net)) = [rq]"
  shows "response (exchangetoken P env b net) =
      (case net rq of
         End r \<Rightarrow>
           (case snd (classify P (on_end r)) of
              Return x \<Rightarrow> Some x
            | Throw m \<Rightarrow> Some (500, Error_message ''exception'' m)
            | Pending \<Rightarrow> None)
       | Error m \<Rightarrow> Some (500, Error_message ''exception'' m)
       | Silent \<Rightarrow> None)"
proof (cases rule: outbound_cases [of P env b net])
  case none
  with assms show ?thesis by simp
next
  case (one t rq')
  from exchangetoken_requested(1) [OF one] assms have "rq' = rq" by simp
  with exchangetoken_requested(2) [OF one] show ?thesis by simp
qed

lemma outbound_at_most_one: "length (outbound (trace (exchangetoken P env b net))) \<le> 1"
proof (cases rule: outbound_cases [of P env b net])
  case none
  then show ?thesis by simp
next
  case (one t rq)
  from exchangetoken_requested(1) [OF one] show ?thesis by simp
qed

lemma statusCode_on_end: "statusCode (on_end r) = status r"
  by (simp add: on_end_def Let_def)

lemma body_on_end: "body (on_end r) = concat (chunks r)"
proof -
  have "foldl (@) acc xs = acc @ concat xs" for acc :: string and xs
    by (induction xs arbitrary: acc) simp_all
  then show ?thesis by (simp add: on_end_def Let_def)
qed

lemma contentType_on_end:
  "contentType (on_end r) = toLowerCase (case content_type r of None \<Rightarrow> [] | Some v \<Rightarrow> v)"
  by (simp add: on_end_def Let_def)

lemma classify_json:
  assumes "includes_str (contentType rd) ''application/json''" and "JSON_parse P (body rd) = Inr j"
  shows "classify P rd = ([Log_success], snd (res_status_json P (statusCode rd) (Json j)))"
  using assms by (simp add: classify_def step_simps lift_simps log_def)

lemma res_status_json_cases:
  "snd (res_status_json P s v) =
     (if s < 100 \<or> 999 < s then Throw (Invalid_status P s)
      else if s < 200 \<or> s = 204 \<or> s = 205 \<or> s = 304 then Return (s, No_body)
      else Return (s, v))"
  by (simp add: res_status_json_def no_body_def)

lemma classify_malformed:
  assumes "includes_str (contentType rd) ''application/json''" and "JSON_parse P (body rd) = Inl m"
  shows "classify P rd = ([], Throw m)"
  using assms by (simp add: classify_def step_simps lift_simps log_def)

lemma classify_html:
  assumes "\<not> includes_str (contentType rd) ''application/json''"
  shows "classify P rd =
    ([Log_html (take 200 (body rd))],
     Return (502, Error_html ''bitrix_returned_html'' ''Bitrix returned HTML instead of JSON''
                    (statusCode rd) (contentType rd) (take 200 (body rd))))"
  using assms by (simp add: classify_def step_simps lift_simps log_def substring_def Let_def)

lemma selected_classify: "selected_endpoints (fst (classify P rd)) = []"
  by (simp add: classify_def step_simps lift_def log_def Let_def split: sum.splits)

lemma selected_await: "selected_endpoints (fst (await_response net rq)) = []"
  by (simp add: await_response_def Let_def split: upstream_outcome.splits)

lemma trace_settled:
  assumes "try_block P env b net = and_then (t, Return ()) (\<lambda>_. and_then (await_response net rq) (classify P))"
  shows "selected_endpoints (trace (exchangetoken P env b net)) = selected_endpoints t"
proof -
  obtain t1 c1 where a: "await_response net rq = (t1, c1)" by (cases "await_response net rq")
  with selected_await [of net rq] have t1: "selected_endpoints t1 = []" by simp
  show ?thesis
  proof (cases c1)
    case (Return rd)
    obtain t2 c2 where c: "classify P rd = (t2, c2)" by (cases "classify P rd")
    with selected_classify [of P rd] have "selected_endpoints t2 = []" by simp
    with a c t1 Return show ?thesis
      by (cases c2)
        (simp_all add: exchangetoken_def assms step_simps selected_endpoints_append)
  next
    case (Throw e)
    with a t1 show ?thesis
      by (simp add: exchangetoken_def assms step_simps selected_endpoints_append)
  next
    case Pending
    with a t1 show ?thesis
      by (simp add: exchangetoken_def assms step_simps selected_endpoints_append)
  qed
qed

lemma try_block_cong:
  assumes "\<And>rq. await_response net rq = await_response net' rq"
  shows "try_block P env b net = try_block P env b net'"
  by (cases rule: try_block_cases [of P env b]) (simp_all add: assms)

section \<open>Facts about strings\<close>

lemma includes_str_iff: "includes_str s t \<longleftrightarrow> (\<exists>u v. s = u @ t @ v)"
proof (induction s)
  case Nil
  show ?case by auto
next
  case (Cons c s)
  show ?case
  proof
    assume "includes_str (c # s) t"
    then consider "startsWith (c # s) t" | "includes_str s t" by auto
    then show "\<exists>u v. c # s = u @ t @ v"
    proof cases
      case 1
      then have "c # s = [] @ t @ drop (length t) (c # s)"
        unfolding startsWith_def by (metis append_Nil append_take_drop_id)
      then show ?thesis by blast
    next
      case 2
      with Cons.IH obtain u v where "s = u @ t @ v" by blast
      then have "c # s = (c # u) @ t @ v" by simp
      then show ?thesis by blast
    qed
  next
    assume "\<exists>u v. c # s = u @ t @ v"
    then obtain u v where uv: "c # s = u @ t @ v" by blast
    show "includes_str (c # s) t"
    proof (cases u)
      case Nil
      with uv have "take (length t) (c # s) = t" by simp
      then show ?thesis by (simp add: startsWith_def)
    next
      case (Cons a u')
      with uv have "s = u' @ t @ v" by simp
      with Cons.IH show ?thesis by auto
    qed
  qed
qed

lemma lower_char_variant:
  assumes "is_upper c" and "(of_char d :: nat) = of_char c + 32"
  shows "lower_char c = d" and "lower_char d = d"
proof -
  from assms(2) have "char_of ((of_char c :: nat) + 32) = char_of (of_char d :: nat)" by simp
  then have "char_of ((of_char c :: nat) + 32) = d" by simp
  with assms(1) show "lower_char c = d" by (simp add: lower_char_def)
  from assms have "\<not> is_upper d" by (auto simp: is_upper_def Let_def)
  then show "lower_char d = d" by (simp add: lower_char_def)
qed

lemma case_variant_lower: "case_variant c d \<Longrightarrow> lower_char c = lower_char d"
  unfolding case_variant_def using lower_char_variant by metis

lemma differ_only_in_case_lower:
  "differ_only_in_case s t \<Longrightarrow> toLowerCase s = toLowerCase t"
  unfolding differ_only_in_case_def toLowerCase_def
  by (induction rule: list_all2_induct) (simp_all add: case_variant_lower)

lemma case_variant_lower_char: "case_variant c (lower_char c)"
proof (cases "is_upper c")
  case True
  then have "(of_char c :: nat) + 32 < 256"
    by (auto simp: is_upper_def Let_def)
  then have "(of_char (char_of ((of_char c :: nat) + 32)) :: nat) = of_char c + 32"
    by simp
  with True show ?thesis by (simp add: case_variant_def lower_char_def)
next
  case False
  then show ?thesis by (simp add: case_variant_def lower_char_def)
qed

lemma differ_only_in_case_toLowerCase: "differ_only_in_case s (toLowerCase s)"
  unfolding differ_only_in_case_def toLowerCase_def
  by (induction s) (simp_all add: case_variant_lower_char)

lemma lower_json: "toLowerCase ''application/json'' = ''application/json''"
  by (simp add: toLowerCase_def lower_char_def is_upper_def char_of_eq_iff)

lemma map_middle:
  assumes "\<exists>u v. map f s = u @ t @ v"
  obtains s1 s2 s3 where "s = s1 @ s2 @ s3" and "map f s2 = t"
proof -
  from assms obtain u v where "map f s = u @ (t @ v)" by blast
  then have "\<exists>s1 r. s = s1 @ r \<and> u = map f s1 \<and> t @ v = map f r"
    by (simp only: map_eq_append_conv)
  then obtain s1 r where 1: "s = s1 @ r" and 2: "map f r = t @ v" by metis
  from 2 have "\<exists>s2 s3. r = s2 @ s3 \<and> t = map f s2 \<and> v = map f s3"
    by (simp only: map_eq_append_conv)
  then obtain s2 s3 where "r = s2 @ s3" and "map f s2 = t" by metis
  with 1 that show thesis by blast
qed

lemma contains_json_any_case:
  "(\<exists>u v. toLowerCase s = u @ ''application/json'' @ v) \<longleftrightarrow>
   (\<exists>u w v. s = u @ w @ v \<and> differ_only_in_case w ''application/json'')"
proof
  assume "\<exists>u v. toLowerCase s = u @ ''application/json'' @ v"
  then obtain s1 s2 s3 where split: "s = s1 @ s2 @ s3"
    and mid: "map lower_char s2 = ''application/json''"
    unfolding toLowerCase_def by (rule map_middle)
  from mid have "differ_only_in_case s2 ''application/json''"
    using differ_only_in_case_toLowerCase [of s2] by (simp add: toLowerCase_def)
  with split show "\<exists>u w v. s = u @ w @ v \<and> differ_only_in_case w ''application/json''"
    by blast
next
  assume "\<exists>u w v. s = u @ w @ v \<and> differ_only_in_case w ''application/json''"
  then obtain u w v where split: "s = u @ w @ v"
    and mid: "differ_only_in_case w ''application/json''"
    by blast
  from mid have "toLowerCase w = ''application/json''"
    using differ_only_in_case_lower [of w "''application/json''"] lower_json by simp
  with split have "toLowerCase s = toLowerCase u @ ''application/json'' @ toLowerCase v"
    by (simp add: toLowerCase_def)
  then show "\<exists>u v. toLowerCase s = u @ ''application/json'' @ v"
    by blast
qed

section \<open>The sample call\<close>

lemma sample_try_block:
  "try_block sample_platform sample_env sample_body net =
     and_then ([Log_received, Log_calling ''https://acme.bitrix24.com/oauth/token/'',
                Log_params ''app.5f1e...'' ''c0de...'' ''https://relay.example/cb''], Return ())
       (\<lambda>_. and_then (await_response net sample_request) (classify sample_platform))"
  by (simp add: try_block_def exchange_def step_simps lift_simps log_def log_params_def
      sample_platform_def sample_env_def sample_body_def property_def truthy_env_def str_def
      tokenUrl_of_def postData_of_def startsWith_def substring_def sample_request_def
      sample_postData_def Let_def
      del: URLSearchParams_toString.simps)

lemma sample_outbound:
  "outbound (trace (exchangetoken sample_platform sample_env sample_body net)) = [sample_request]"
  by (rule exchangetoken_requested(1) [OF sample_try_block]) simp

lemma sample_json: "includes_str (contentType (on_end json_reply)) ''application/json''"
  by (simp add: on_end_def json_reply_def toLowerCase_def lower_char_def is_upper_def
      startsWith_def Let_def)

lemma sample_parse: "JSON_parse sample_platform (body (on_end json_reply)) = Inr token_payload"
  by (simp add: on_end_def json_reply_def sample_platform_def Let_def)

lemma sample_html: "\<not> includes_str (contentType (on_end html_reply)) ''application/json''"
  by (simp add: on_end_def html_reply_def toLowerCase_def lower_char_def is_upper_def
      startsWith_def Let_def)

lemma sample_broken:
  "includes_str (contentType (on_end broken_reply)) ''application/json''"
  "JSON_parse sample_platform (body (on_end broken_reply)) =
     Inl ''Unexpected token < in JSON at position 0''"
  by (simp_all add: on_end_def broken_reply_def toLowerCase_def lower_char_def is_upper_def
      startsWith_def sample_platform_def token_body_def Let_def)

section \<open>Input validation\<close>

text \<open>
  C4. A request whose body lacks \<^verbatim>\<open>oauth_code\<close> is answered with status 400 and
  error kind \<^verbatim>\<open>missing_oauth_code\<close>, and no request is sent upstream.
\<close>

theorem absent_oauth_code_rejected:
  assumes "b ''oauth_code'' = None"
  shows "response (exchangetoken P env b net) =
           Some (400, Error_message ''missing_oauth_code'' ''oauth_code parameter is required'')
         \<and> outbound (trace (exchangetoken P env b net)) = []"
  using assms by (simp add: exchangetoken_def try_block_def property_def step_simps log_def)

theorem absent_oauth_code_rejected_witness:
  "[''domain'' \<mapsto> JStr ''acme.bitrix24.com''] ''oauth_code'' = None
   \<and> response (exchangetoken sample_platform sample_env
         [''domain'' \<mapsto> JStr ''acme.bitrix24.com''] (\<lambda>rq. End json_reply)) =
       Some (400, Error_message ''missing_oauth_code'' ''oauth_code parameter is required'')
   \<and> outbound (trace (exchangetoken sample_platform sample_env
         [''domain'' \<mapsto> JStr ''acme.bitrix24.com''] (\<lambda>rq. End json_reply))) = []"
proof -
  have h: "[''domain'' \<mapsto> JStr ''acme.bitrix24.com''] ''oauth_code'' = None" by simp
  show ?thesis
    using h
      absent_oauth_code_rejected [where b = "[''domain'' \<mapsto> JStr ''acme.bitrix24.com'']"
        and P = sample_platform and env = sample_env and net = "\<lambda>rq. End json_reply"]
    by simp
qed

text \<open>
  C5. A request whose body lacks \<^verbatim>\<open>domain\<close> and supplies an \<^verbatim>\<open>oauth_code\<close>
  that passes the first check (a truthy value) is answered with status 400 and error
  kind \<^verbatim>\<open>missing_domain\<close>, and no request is sent upstream.
\<close>

theorem absent_domain_rejected:
  assumes "b ''domain'' = None" and "truthy (property b ''oauth_code'')"
  shows "response (exchangetoken P env b net) =
           Some (400, Error_message ''missing_domain'' ''domain parameter is required'')
         \<and> outbound (trace (exchangetoken P env b net)) = []"
  using assms by (simp add: exchangetoken_def try_block_def property_def step_simps log_def)

theorem absent_domain_rejected_witness:
  "[''oauth_code'' \<mapsto> JStr ''c0de''] ''domain'' = None
   \<and> truthy (property [''oauth_code'' \<mapsto> JStr ''c0de''] ''oauth_code'')
   \<and> response (exchangetoken sample_platform sample_env
         [''oauth_code'' \<mapsto> JStr ''c0de''] (\<lambda>rq. End json_reply)) =
       Some (400, Error_message ''missing_domain'' ''domain parameter is required'')
   \<and> outbound (trace (exchangetoken sample_platform sample_env
         [''oauth_code'' \<mapsto> JStr ''c0de''] (\<lambda>rq. End json_reply))) = []"
proof -
  have h1: "[''oauth_code'' \<mapsto> JStr ''c0de''] ''domain'' = None" by simp
  have h2: "truthy (property [''oauth_code'' \<mapsto> JStr ''c0de''] ''oauth_code'')"
    by (simp add: property_def)
  show ?thesis
    using h1 h2
      absent_domain_rejected [where b = "[''oauth_code'' \<mapsto> JStr ''c0de'']"
        and P = sample_platform and env = sample_env and net = "\<lambda>rq. End json_reply"]
    by simp
qed

text \<open>
  C6. With both request fields supplied (truthy), if any of the three credentials is
  absent (unset or empty), the call is answered with status 500 and error kind
  \<^verbatim>\<open>missing_env\<close>; each of the three booleans in the details is true exactly when
  that credential is present; no request is sent upstream. The answer holds nothing of
  the credentials but these booleans: any environment with the same three presences
  gets the same answer.
\<close>

theorem absent_credentials_reported:
  assumes "truthy (property b ''oauth_code'')" and "truthy (property b ''domain'')"
    and "\<not> (truthy_env (env ''BITRIX_CLIENT_ID'') \<and> truthy_env (env ''BITRIX_CLIENT_SECRET'')
            \<and> truthy_env (env ''BITRIX_REDIRECT_URI''))"
  shows "response (exchangetoken P env b net) =
           Some (500, Error_env ''missing_env'' ''Server configuration error''
                        (truthy_env (env ''BITRIX_CLIENT_ID''))
                        (truthy_env (env ''BITRIX_CLIENT_SECRET''))
                        (truthy_env (env ''BITRIX_REDIRECT_URI'')))
         \<and> outbound (trace (exchangetoken P env b net)) = []
         \<and> (\<forall>env'.
               truthy_env (env' ''BITRIX_CLIENT_ID'') = truthy_env (env ''BITRIX_CLIENT_ID'')
               \<and> truthy_env (env' ''BITRIX_CLIENT_SECRET'') = truthy_env (env ''BITRIX_CLIENT_SECRET'')
               \<and> truthy_env (env' ''BITRIX_REDIRECT_URI'') = truthy_env (env ''BITRIX_REDIRECT_URI'')
               \<longrightarrow> response (exchangetoken P env' b net) = response (exchangetoken P env b net))"
  using assms
  by (auto simp: exchangetoken_def try_block_def step_simps log_def Let_def)

theorem absent_credentials_reported_witness:
  "truthy (property sample_body ''oauth_code'') \<and> truthy (property sample_body ''domain'')
   \<and> truthy_env (sample_env ''BITRIX_CLIENT_ID'')
   \<and> \<not> truthy_env ((sample_env(''BITRIX_CLIENT_SECRET'' := None)) ''BITRIX_CLIENT_SECRET'')
   \<and> response (exchangetoken sample_platform (sample_env(''BITRIX_CLIENT_SECRET'' := None))
         sample_body (\<lambda>rq. End json_reply)) =
       Some (500, Error_env ''missing_env'' ''Server configuration error'' True False True)
   \<and> outbound (trace (exchangetoken sample_platform (sample_env(''BITRIX_CLIENT_SECRET'' := None))
         sample_body (\<lambda>rq. End json_reply))) = []
   \<and> response (exchangetoken sample_platform (sample_env(''BITRIX_CLIENT_SECRET'' \<mapsto> []))
         sample_body (\<lambda>rq. End json_reply)) =
     response (exchangetoken sample_platform (sample_env(''BITRIX_CLIENT_SECRET'' := None))
         sample_body (\<lambda>rq. End json_reply))"
proof -
  let ?env = "sample_env(''BITRIX_CLIENT_SECRET'' := None)"
  let ?env' = "sample_env(''BITRIX_CLIENT_SECRET'' \<mapsto> [])"
  have h1: "truthy (property sample_body ''oauth_code'')"
    and h2: "truthy (property sample_body ''domain'')"
    by (simp_all add: sample_body_def property_def)
  have h3: "\<not> (truthy_env (?env ''BITRIX_CLIENT_ID'') \<and> truthy_env (?env ''BITRIX_CLIENT_SECRET'')
      \<and> truthy_env (?env ''BITRIX_REDIRECT_URI''))"
    by (simp add: truthy_env_def)
  have h4: "truthy_env (?env' ''BITRIX_CLIENT_ID'') = truthy_env (?env ''BITRIX_CLIENT_ID'')
      \<and> truthy_env (?env' ''BITRIX_CLIENT_SECRET'') = truthy_env (?env ''BITRIX_CLIENT_SECRET'')
      \<and> truthy_env (?env' ''BITRIX_REDIRECT_URI'') = truthy_env (?env ''BITRIX_REDIRECT_URI'')"
    by (simp add: truthy_env_def)
  have main: "response (exchangetoken sample_platform ?env sample_body (\<lambda>rq. End json_reply)) =
           Some (500, Error_env ''missing_env'' ''Server configuration error''
                        (truthy_env (?env ''BITRIX_CLIENT_ID''))
                        (truthy_env (?env ''BITRIX_CLIENT_SECRET''))
                        (truthy_env (?env ''BITRIX_REDIRECT_URI'')))
         \<and> outbound (trace (exchangetoken sample_platform ?env sample_body (\<lambda>rq. End json_reply))) = []
         \<and> (\<forall>env'.
               truthy_env (env' ''BITRIX_CLIENT_ID'') = truthy_env (?env ''BITRIX_CLIENT_ID'')
               \<and> truthy_env (env' ''BITRIX_CLIENT_SECRET'') = truthy_env (?env ''BITRIX_CLIENT_SECRET'')
               \<and> truthy_env (env' ''BITRIX_REDIRECT_URI'') = truthy_env (?env ''BITRIX_REDIRECT_URI'')
               \<longrightarrow> response (exchangetoken sample_platform env' sample_body (\<lambda>rq. End json_reply)) =
                   response (exchangetoken sample_platform ?env sample_body (\<lambda>rq. End json_reply)))"
    by (rule absent_credentials_reported [where b = sample_body and env = ?env
          and P = sample_platform and net = "\<lambda>rq. End json_reply", OF h1 h2 h3])
  from main h4 have same:
    "response (exchangetoken sample_platform ?env' sample_body (\<lambda>rq. End json_reply)) =
     response (exchangetoken sample_platform ?env sample_body (\<lambda>rq. End json_reply))"
    by blast
  from main have "response (exchangetoken sample_platform ?env sample_body (\<lambda>rq. End json_reply)) =
       Some (500, Error_env ''missing_env'' ''Server configuration error'' True False True)"
    by (simp add: truthy_env_def sample_env_def)
  with main same h1 h2 show ?thesis
    by (simp add: truthy_env_def sample_env_def)
qed

section \<open>Endpoint selection\<close>

text \<open>
  C1. For a call that passes the checks of the request fields and of the credentials,
  the token endpoint is \<^verbatim>\<open>https://oauth.bitrix.info/oauth/token/\<close> when the client
  id starts with \<^verbatim>\<open>local.\<close>, whatever the domain supplied, and
  \<^verbatim>\<open>https://<domain>/oauth/token/\<close> otherwise, for a domain that is a non-empty
  string. The endpoint is observed where the handler shows it: in the line that
  announces the call, which is written once the form body is built (building it fails
  only if the code has no conversion to a string), and in the request, whose host and
  path are those of the endpoint as the URL parser reads it, on port 443.
\<close>

theorem token_endpoint_selected:
  assumes code: "truthy (property b ''oauth_code'')"
    and dmn: "truthy (property b ''domain'')"
    and cid: "env ''BITRIX_CLIENT_ID'' = Some clientId" "clientId \<noteq> []"
    and sec: "truthy_env (env ''BITRIX_CLIENT_SECRET'')"
    and uri: "truthy_env (env ''BITRIX_REDIRECT_URI'')"
    and tenant: "startsWith clientId ''local.'' \<or> property b ''domain'' = JStr tenant_domain"
  shows "selected_endpoints (trace (exchangetoken P env b net)) =
           (case ToString (property b ''oauth_code'') of
              Inl e \<Rightarrow> []
            | Inr c \<Rightarrow>
                [if startsWith clientId ''local.'' then ''https://oauth.bitrix.info/oauth/token/''
                 else ''https://'' @ tenant_domain @ ''/oauth/token/''])
         \<and> (\<forall>rq \<in> set (outbound (trace (exchangetoken P env b net))).
               URL_new P (if startsWith clientId ''local.''
                          then ''https://oauth.bitrix.info/oauth/token/''
                          else ''https://'' @ tenant_domain @ ''/oauth/token/'') =
                 Inr \<lparr>hostname = req_hostname rq, pathname = req_path rq\<rparr>
               \<and> req_port rq = 443)"
proof -
  let ?code = "property b ''oauth_code''" and ?dmn = "property b ''domain''"
  let ?sec = "str (env ''BITRIX_CLIENT_SECRET'')" and ?uri = "str (env ''BITRIX_REDIRECT_URI'')"
  define tokenUrl where
    "tokenUrl = (if startsWith clientId ''local.'' then ''https://oauth.bitrix.info/oauth/token/''
                 else ''https://'' @ tenant_domain @ ''/oauth/token/'')"
  let ?R = "exchangetoken P env b net"
  from assms have tb: "try_block P env b net =
      and_then ([Log_received], Return ()) (\<lambda>_. exchange P clientId ?sec ?uri ?code ?dmn net)"
    by (simp add: try_block_def log_def Let_def truthy_env_def str_def)
  from tenant have url: "tokenUrl_of clientId ?dmn = Inr tokenUrl"
    by (auto simp: tokenUrl_of_def broker_url_def tokenUrl_def)
  have "selected_endpoints (trace ?R) =
           (case ToString ?code of Inl e \<Rightarrow> [] | Inr c \<Rightarrow> [tokenUrl])
         \<and> (\<forall>rq \<in> set (outbound (trace ?R)).
               URL_new P tokenUrl = Inr \<lparr>hostname = req_hostname rq, pathname = req_path rq\<rparr>
               \<and> req_port rq = 443)"
  proof (cases "ToString ?code")
    case (Inl e)
    then have "exchange P clientId ?sec ?uri ?code ?dmn net = ([], Throw e)"
      by (simp add: exchange_def url postData_of_def lift_simps step_simps)
    with tb have "?R = \<lparr>response = Some (500, Error_message ''exception'' e),
        trace = [Log_received, Log_exception e, Log_stack]\<rparr>"
      by (simp add: exchangetoken_def step_simps)
    with Inl show ?thesis by simp
  next
    case (Inr c)
    then obtain postData where post: "postData_of clientId ?sec ?code ?uri = Inr postData"
      by (simp add: postData_of_def)
    show ?thesis
    proof (cases "\<exists>s. ?code = JStr s")
      case False
      then have "log_params clientId ?code ?uri = ([], Throw not_a_function)"
        by (cases ?code) (simp_all add: log_params_def)
      then have "exchange P clientId ?sec ?uri ?code ?dmn net =
          ([Log_calling tokenUrl], Throw not_a_function)"
        by (simp add: exchange_def url post lift_simps step_simps log_def)
      with tb have "?R = \<lparr>response = Some (500, Error_message ''exception'' not_a_function),
          trace = [Log_received, Log_calling tokenUrl, Log_exception not_a_function, Log_stack]\<rparr>"
        by (simp add: exchangetoken_def step_simps)
      with Inr show ?thesis by simp
    next
      case True
      then obtain s where s: "?code = JStr s" ..
      let ?t = "[Log_calling tokenUrl,
                 Log_params (substring clientId 20 @ ''...'') (substring s 20 @ ''...'') ?uri]"
      show ?thesis
      proof (cases "URL_new P tokenUrl")
        case (Inl e)
        then have "exchange P clientId ?sec ?uri ?code ?dmn net = (?t, Throw e)"
          by (simp add: exchange_def url post [unfolded s] s lift_simps step_simps log_def
              log_params_def)
        with tb have "?R = \<lparr>response = Some (500, Error_message ''exception'' e),
            trace = Log_received # ?t @ [Log_exception e, Log_stack]\<rparr>"
          by (simp add: exchangetoken_def step_simps)
        with Inr show ?thesis by simp
      next
        case parsed: (Inr parsedUrl)
        let ?rq = "requestOptions_of parsedUrl postData"
        from parsed have "exchange P clientId ?sec ?uri ?code ?dmn net =
            and_then (?t, Return ()) (\<lambda>_. and_then (await_response net ?rq) (classify P))"
          by (simp add: exchange_def url post [unfolded s] s lift_simps step_simps log_def
              log_params_def)
        with tb have shape: "try_block P env b net =
            and_then (Log_received # ?t, Return ())
              (\<lambda>_. and_then (await_response net ?rq) (classify P))"
          by (simp add: step_simps)
        have out: "outbound (trace ?R) = [?rq]"
          by (rule exchangetoken_requested(1) [OF shape]) simp
        have sel: "selected_endpoints (trace ?R) = [tokenUrl]"
          using trace_settled [OF shape] by simp
        from parsed have "URL_new P tokenUrl =
            Inr \<lparr>hostname = req_hostname ?rq, pathname = req_path ?rq\<rparr> \<and> req_port ?rq = 443"
          by (simp add: requestOptions_of_def)
        with out sel Inr show ?thesis by simp
      qed
    qed
  qed
  then show ?thesis unfolding tokenUrl_def .
qed

theorem token_endpoint_selected_witness:
  "truthy (property sample_body ''oauth_code'') \<and> truthy (property sample_body ''domain'')
   \<and> sample_env ''BITRIX_CLIENT_ID'' = Some ''app.5f1e''
   \<and> \<not> startsWith ''app.5f1e'' ''local.''
   \<and> property sample_body ''domain'' = JStr ''acme.bitrix24.com''
   \<and> selected_endpoints (trace (exchangetoken sample_platform sample_env sample_body
         (\<lambda>rq. End json_reply))) = [''https://acme.bitrix24.com/oauth/token/'']
   \<and> local_env ''BITRIX_CLIENT_ID'' = Some ''local.5f1e''
   \<and> startsWith ''local.5f1e'' ''local.''
   \<and> selected_endpoints (trace (exchangetoken sample_platform local_env sample_body
         (\<lambda>rq. End json_reply))) = [''https://oauth.bitrix.info/oauth/token/'']"
proof -
  have code: "truthy (property sample_body ''oauth_code'')"
    and dmn: "truthy (property sample_body ''domain'')"
    and str: "property sample_body ''domain'' = JStr ''acme.bitrix24.com''"
    by (simp_all add: sample_body_def property_def)
  have cid: "sample_env ''BITRIX_CLIENT_ID'' = Some ''app.5f1e''" "''app.5f1e'' \<noteq> []"
    and sec: "truthy_env (sample_env ''BITRIX_CLIENT_SECRET'')"
    and uri: "truthy_env (sample_env ''BITRIX_REDIRECT_URI'')"
    by (simp_all add: sample_env_def truthy_env_def)
  have lcid: "local_env ''BITRIX_CLIENT_ID'' = Some ''local.5f1e''" "''local.5f1e'' \<noteq> []"
    and lsec: "truthy_env (local_env ''BITRIX_CLIENT_SECRET'')"
    and luri: "truthy_env (local_env ''BITRIX_REDIRECT_URI'')"
    by (simp_all add: local_env_def sample_env_def truthy_env_def)
  have tenant: "\<not> startsWith ''app.5f1e'' ''local.''" and broker: "startsWith ''local.5f1e'' ''local.''"
    by (simp_all add: startsWith_def)
  have conv: "ToString (property sample_body ''oauth_code'') = Inr ''c0de''"
    by (simp add: sample_body_def property_def)
  from str have t1: "startsWith ''app.5f1e'' ''local.'' \<or> property sample_body ''domain'' = JStr ''acme.bitrix24.com''"
    by simp
  from broker have t2: "startsWith ''local.5f1e'' ''local.'' \<or> property sample_body ''domain'' = JStr []"
    by simp
  have 1: "selected_endpoints (trace (exchangetoken sample_platform sample_env sample_body
         (\<lambda>rq. End json_reply))) = [''https://acme.bitrix24.com/oauth/token/'']"
    using token_endpoint_selected [where b = sample_body and env = sample_env
        and P = sample_platform and net = "\<lambda>rq. End json_reply", OF code dmn cid sec uri t1]
    by (simp add: conv tenant)
  have 2: "selected_endpoints (trace (exchangetoken sample_platform local_env sample_body
         (\<lambda>rq. End json_reply))) = [''https://oauth.bitrix.info/oauth/token/'']"
    using token_endpoint_selected [where b = sample_body and env = local_env
        and P = sample_platform and net = "\<lambda>rq. End json_reply", OF code dmn lcid lsec luri t2]
    by (simp add: conv broker)
  from code dmn str cid(1) lcid(1) tenant broker 1 2 show ?thesis by simp
qed

section \<open>Classification of the upstream response\<close>

text \<open>
  In the theorems of this section a call has sent its request \<open>rq\<close> and the upstream has
  answered it with the response \<open>r\<close>: \<open>outbound (trace \<dots>) = [rq]\<close> and
  \<open>net rq = End r\<close>. The handler reads the response as \<open>on_end r\<close>: the body is all the
  chunks, the content type is the declared one in lower case, or the empty string when
  none is declared.

  C2. When the content type indicates JSON and the body parses, the relay answers with
  the status code of the upstream and the parsed payload, for every status code that is
  sent with a body: 200 to 999 except 204, 205 and 304, so the codes that are not 2xx
  too. The informational codes and 204, 205 and 304 are passed on with no body. A code
  outside 100 to 999 is refused by the response layer, and the call is answered with
  status 500 and error kind \<^verbatim>\<open>exception\<close>.
\<close>

theorem json_reply_relayed:
  assumes "outbound (trace (exchangetoken P env b net)) = [rq]"
    and "net rq = End r"
    and "\<exists>u v. toLowerCase (case content_type r of None \<Rightarrow> [] | Some ct \<Rightarrow> ct) =
                 u @ ''application/json'' @ v"
    and "JSON_parse P (concat (chunks r)) = Inr j"
  shows "response (exchangetoken P env b net) =
           (if status r < 100 \<or> 999 < status r then
              Some (500, Error_message ''exception'' (Invalid_status P (status r)))
            else if status r < 200 \<or> status r = 204 \<or> status r = 205 \<or> status r = 304 then
              Some (status r, No_body)
            else Some (status r, Json j))"
proof -
  from assms(3) have inc: "includes_str (contentType (on_end r)) ''application/json''"
    by (simp add: includes_str_iff contentType_on_end)
  from assms(4) have parsed: "JSON_parse P (body (on_end r)) = Inr j"
    by (simp add: body_on_end)
  show ?thesis
    using response_after_request [OF assms(1)] assms(2) classify_json [OF inc parsed]
    by (simp add: statusCode_on_end res_status_json_cases)
qed

lemma sample_mixed:
  "\<exists>u v. toLowerCase (case content_type (mixed_reply\<lparr>status := s\<rparr>) of None \<Rightarrow> [] | Some ct \<Rightarrow> ct) =
          u @ ''application/json'' @ v"
  "JSON_parse sample_platform (concat (chunks (mixed_reply\<lparr>status := s\<rparr>))) = Inr token_payload"
proof -
  have "toLowerCase ''Application/JSON; Charset=UTF-8'' =
      [] @ ''application/json'' @ ''; charset=utf-8''"
    by (simp add: toLowerCase_def lower_char_def is_upper_def char_of_eq_iff)
  then show "\<exists>u v. toLowerCase (case content_type (mixed_reply\<lparr>status := s\<rparr>) of None \<Rightarrow> [] | Some ct \<Rightarrow> ct) =
          u @ ''application/json'' @ v"
    unfolding mixed_reply_def by (simp only: upstream_response.simps option.case) blast
  show "JSON_parse sample_platform (concat (chunks (mixed_reply\<lparr>status := s\<rparr>))) = Inr token_payload"
    by (simp add: mixed_reply_def sample_platform_def token_body_def)
qed

theorem json_reply_relayed_witness:
  "outbound (trace (exchangetoken sample_platform sample_env sample_body (\<lambda>rq. End mixed_reply))) =
     [sample_request]
   \<and> content_type mixed_reply = Some ''Application/JSON; Charset=UTF-8''
   \<and> length (chunks mixed_reply) = 2
   \<and> JSON_parse sample_platform (concat (chunks mixed_reply)) = Inr token_payload
   \<and> response (exchangetoken sample_platform sample_env sample_body (\<lambda>rq. End mixed_reply)) =
       Some (200, Json token_payload)
   \<and> response (exchangetoken sample_platform sample_env sample_body
         (\<lambda>rq. End (mixed_reply\<lparr>status := 401\<rparr>))) =
       Some (401, Json token_payload)
   \<and> response (exchangetoken sample_platform sample_env sample_body
         (\<lambda>rq. End (mixed_reply\<lparr>status := 204\<rparr>))) =
       Some (204, No_body)"
proof -
  have same: "mixed_reply\<lparr>status := 200\<rparr> = mixed_reply"
    by (simp add: mixed_reply_def)
  have shape: "content_type mixed_reply = Some ''Application/JSON; Charset=UTF-8''"
    "length (chunks mixed_reply) = 2"
    by (simp_all add: mixed_reply_def)
  have 1: "response (exchangetoken sample_platform sample_env sample_body
         (\<lambda>rq. End (mixed_reply\<lparr>status := 200\<rparr>))) = Some (200, Json token_payload)"
    using json_reply_relayed [OF sample_outbound [of "\<lambda>rq. End (mixed_reply\<lparr>status := 200\<rparr>)"]
        refl sample_mixed [of 200]]
    by simp
  have 2: "response (exchangetoken sample_platform sample_env sample_body
         (\<lambda>rq. End (mixed_reply\<lparr>status := 401\<rparr>))) = Some (401, Json token_payload)"
    using json_reply_relayed [OF sample_outbound [of "\<lambda>rq. End (mixed_reply\<lparr>status := 401\<rparr>)"]
        refl sample_mixed [of 401]]
    by simp
  have 3: "response (exchangetoken sample_platform sample_env sample_body
         (\<lambda>rq. End (mixed_reply\<lparr>status := 204\<rparr>))) = Some (204, No_body)"
    using json_reply_relayed [OF sample_outbound [of "\<lambda>rq. End (mixed_reply\<lparr>status := 204\<rparr>)"]
        refl sample_mixed [of 204]]
    by simp
  from 1 2 3 shape sample_mixed(2) [of 200] sample_outbound [of "\<lambda>rq. End mixed_reply"]
  show ?thesis by (simp add: same)
qed

text \<open>
  The payload is not relayed with every status code: on the sample call an upstream
  that answers 205 with the token payload gets its code passed on with no body, and one
  that answers 99 has the call end in the \<^verbatim>\<open>catch\<close>.
\<close>

theorem payload_not_always_relayed:
  "response (exchangetoken sample_platform sample_env sample_body
     (\<lambda>rq. End (json_reply\<lparr>status := 205\<rparr>))) = Some (205, No_body)
   \<and> response (exchangetoken sample_platform sample_env sample_body
     (\<lambda>rq. End (json_reply\<lparr>status := 99\<rparr>))) =
       Some (500, Error_message ''exception'' ''Invalid status code: 99'')"
proof -
  have inc: "includes_str (contentType (on_end (json_reply\<lparr>status := s\<rparr>))) ''application/json''" for s
    using sample_json by (simp add: on_end_def Let_def)
  have parsed: "JSON_parse sample_platform (body (on_end (json_reply\<lparr>status := s\<rparr>))) =
      Inr token_payload" for s
    using sample_parse by (simp add: on_end_def Let_def)
  have msg: "Invalid_status sample_platform 99 = ''Invalid status code: 99''"
    by (simp add: sample_platform_def char_of_eq_iff)
  have 1: "response (exchangetoken sample_platform sample_env sample_body
     (\<lambda>rq. End (json_reply\<lparr>status := 205\<rparr>))) = Some (205, No_body)"
    using response_after_request [OF sample_outbound [of "\<lambda>rq. End (json_reply\<lparr>status := 205\<rparr>)"]]
      classify_json [OF inc [of 205] parsed [of 205]]
    by (simp add: statusCode_on_end res_status_json_cases)
  have 2: "response (exchangetoken sample_platform sample_env sample_body
     (\<lambda>rq. End (json_reply\<lparr>status := 99\<rparr>))) =
       Some (500, Error_message ''exception'' ''Invalid status code: 99'')"
    using response_after_request [OF sample_outbound [of "\<lambda>rq. End (json_reply\<lparr>status := 99\<rparr>)"]]
      classify_json [OF inc [of 99] parsed [of 99]]
    by (simp add: statusCode_on_end res_status_json_cases msg)
  from 1 2 show ?thesis by simp
qed

text \<open>
  C3. When the content type does not indicate JSON, whatever the status code of the
  upstream, the relay answers with status 502 and error kind
  \<^verbatim>\<open>bitrix_returned_html\<close>, with the status code, the content type and a preview of
  the body of the response as the handler holds it in \<^verbatim>\<open>responseData\<close>. The
  preview is a prefix of the body of length at most 200. The status code is that of the
  upstream, the body is all its chunks, and the content type is the declared one in
  lower case, the empty string when none is declared.
\<close>

theorem non_json_reply_refused:
  assumes "outbound (trace (exchangetoken P env b net)) = [rq]"
    and "net rq = End r"
    and "\<not> includes_str (contentType (on_end r)) ''application/json''"
  shows "\<exists>bodyPreview.
           response (exchangetoken P env b net) =
             Some (502, Error_html ''bitrix_returned_html'' ''Bitrix returned HTML instead of JSON''
                          (statusCode (on_end r)) (contentType (on_end r)) bodyPreview)
           \<and> bodyPreview = take 200 (body (on_end r))
           \<and> prefix bodyPreview (body (on_end r))
           \<and> length bodyPreview \<le> 200
           \<and> statusCode (on_end r) = status r
           \<and> body (on_end r) = concat (chunks r)
           \<and> contentType (on_end r) =
               toLowerCase (case content_type r of None \<Rightarrow> [] | Some v \<Rightarrow> v)"
  using response_after_request [OF assms(1)] assms(2) classify_html [OF assms(3)]
    statusCode_on_end [of r] body_on_end [of r] contentType_on_end [of r]
  by (simp add: take_is_prefix)

theorem non_json_reply_refused_witness:
  "outbound (trace (exchangetoken sample_platform sample_env sample_body (\<lambda>rq. End html_reply))) =
     [sample_request]
   \<and> \<not> includes_str (contentType (on_end html_reply)) ''application/json''
   \<and> response (exchangetoken sample_platform sample_env sample_body (\<lambda>rq. End html_reply)) =
       Some (502, Error_html ''bitrix_returned_html'' ''Bitrix returned HTML instead of JSON''
                    404 ''text/html'' ''<html></html>'')"
  using sample_outbound [of "\<lambda>rq. End html_reply"] sample_html
    non_json_reply_refused [OF sample_outbound [of "\<lambda>rq. End html_reply"] refl sample_html]
  by (simp add: html_reply_def toLowerCase_def lower_char_def is_upper_def)

text \<open>
  C10. The predicate of the classification: the response is handled as JSON exactly when
  the declared content type, in lower case, contains \<^verbatim>\<open>application/json\<close>, that is,
  when the declared content type contains these letters in any case. In that case the
  answer is that of the JSON branch: the exception of the parser, or the parsed payload
  as the response layer sends it. Otherwise it is the 502 of
  \<^verbatim>\<open>bitrix_returned_html\<close>. A response with no content type is of the second kind,
  and \<^verbatim>\<open>application/json; charset=utf-8\<close>, in any letter case, of the first.
\<close>

theorem json_predicate_exact:
  assumes "outbound (trace (exchangetoken P env b net)) = [rq]" and "net rq = End r"
  shows "(if \<exists>u v. toLowerCase (case content_type r of None \<Rightarrow> [] | Some ct \<Rightarrow> ct) =
                     u @ ''application/json'' @ v
          then response (exchangetoken P env b net) =
                 (case JSON_parse P (concat (chunks r)) of
                    Inl m \<Rightarrow> Some (500, Error_message ''exception'' m)
                  | Inr j \<Rightarrow>
                      (if status r < 100 \<or> 999 < status r then
                         Some (500, Error_message ''exception'' (Invalid_status P (status r)))
                       else if status r < 200 \<or> status r = 204 \<or> status r = 205
                               \<or> status r = 304 then
                         Some (status r, No_body)
                       else Some (status r, Json j)))
          else response (exchangetoken P env b net) =
                 Some (502, Error_html ''bitrix_returned_html''
                              ''Bitrix returned HTML instead of JSON'' (status r)
                              (toLowerCase (case content_type r of None \<Rightarrow> [] | Some ct \<Rightarrow> ct))
                              (take 200 (concat (chunks r)))))
       \<and> ((\<exists>u v. toLowerCase (case content_type r of None \<Rightarrow> [] | Some ct \<Rightarrow> ct) =
                   u @ ''application/json'' @ v) =
          (\<exists>u w v. (case content_type r of None \<Rightarrow> [] | Some ct \<Rightarrow> ct) = u @ w @ v
                     \<and> differ_only_in_case w ''application/json''))
       \<and> (content_type r = None \<longrightarrow>
            response (exchangetoken P env b net) =
              Some (502, Error_html ''bitrix_returned_html''
                           ''Bitrix returned HTML instead of JSON'' (status r) []
                           (take 200 (concat (chunks r)))))
       \<and> (\<exists>u v. toLowerCase ''application/json; charset=utf-8'' = u @ ''application/json'' @ v)
       \<and> toLowerCase ''Application/JSON; Charset=UTF-8'' = ''application/json; charset=utf-8''"
proof -
  let ?ct = "toLowerCase (case content_type r of None \<Rightarrow> [] | Some ct \<Rightarrow> ct)"
  have resp: "response (exchangetoken P env b net) =
      (case snd (classify P (on_end r)) of
         Return x \<Rightarrow> Some x
       | Throw m \<Rightarrow> Some (500, Error_message ''exception'' m)
       | Pending \<Rightarrow> None)"
    using response_after_request [OF assms(1)] assms(2) by simp
  have first: "response (exchangetoken P env b net) =
         (case JSON_parse P (concat (chunks r)) of
            Inl m \<Rightarrow> Some (500, Error_message ''exception'' m)
          | Inr j \<Rightarrow>
              (if status r < 100 \<or> 999 < status r then
                 Some (500, Error_message ''exception'' (Invalid_status P (status r)))
               else if status r < 200 \<or> status r = 204 \<or> status r = 205 \<or> status r = 304 then
                 Some (status r, No_body)
               else Some (status r, Json j)))"
    if "\<exists>u v. ?ct = u @ ''application/json'' @ v"
  proof -
    from that have inc: "includes_str (contentType (on_end r)) ''application/json''"
      by (simp add: includes_str_iff contentType_on_end)
    show ?thesis
    proof (cases "JSON_parse P (body (on_end r))")
      case (Inl m)
      with resp classify_malformed [OF inc Inl] show ?thesis by (simp add: body_on_end)
    next
      case (Inr j)
      with resp classify_json [OF inc Inr] show ?thesis
        by (simp add: body_on_end statusCode_on_end res_status_json_cases)
    qed
  qed
  have second: "response (exchangetoken P env b net) =
         Some (502, Error_html ''bitrix_returned_html''
                      ''Bitrix returned HTML instead of JSON'' (status r) ?ct
                      (take 200 (concat (chunks r))))"
    if "\<not> (\<exists>u v. ?ct = u @ ''application/json'' @ v)"
  proof -
    from that have "\<not> includes_str (contentType (on_end r)) ''application/json''"
      by (simp add: includes_str_iff contentType_on_end)
    from resp classify_html [OF this] show ?thesis
      by (simp add: body_on_end statusCode_on_end contentType_on_end)
  qed
  have third: "response (exchangetoken P env b net) =
         Some (502, Error_html ''bitrix_returned_html''
                      ''Bitrix returned HTML instead of JSON'' (status r) []
                      (take 200 (concat (chunks r))))"
    if "content_type r = None"
    using second that by (simp add: toLowerCase_def)
  have fifth: "toLowerCase ''Application/JSON; Charset=UTF-8'' = ''application/json; charset=utf-8''"
    and plain: "toLowerCase ''application/json; charset=utf-8'' =
      [] @ ''application/json'' @ ''; charset=utf-8''"
    by (simp_all add: toLowerCase_def lower_char_def is_upper_def char_of_eq_iff)
  from plain have fourth:
    "\<exists>u v. toLowerCase ''application/json; charset=utf-8'' = u @ ''application/json'' @ v"
    by blast
  note any = contains_json_any_case [of "case content_type r of None \<Rightarrow> [] | Some ct \<Rightarrow> ct"]
  have branch:
    "if \<exists>u v. ?ct = u @ ''application/json'' @ v
     then response (exchangetoken P env b net) =
         (case JSON_parse P (concat (chunks r)) of
            Inl m \<Rightarrow> Some (500, Error_message ''exception'' m)
          | Inr j \<Rightarrow>
              (if status r < 100 \<or> 999 < status r then
                 Some (500, Error_message ''exception'' (Invalid_status P (status r)))
               else if status r < 200 \<or> status r = 204 \<or> status r = 205 \<or> status r = 304 then
                 Some (status r, No_body)
               else Some (status r, Json j)))
     else response (exchangetoken P env b net) =
         Some (502, Error_html ''bitrix_returned_html''
                      ''Bitrix returned HTML instead of JSON'' (status r) ?ct
                      (take 200 (concat (chunks r))))"
  proof (cases "\<exists>u v. ?ct = u @ ''application/json'' @ v")
    case True
    show ?thesis by (subst if_P [OF True]) (rule first [OF True])
  next
    case False
    show ?thesis by (subst if_not_P [OF False]) (rule second [OF False])
  qed
  from third have none: "content_type r = None \<longrightarrow>
      response (exchangetoken P env b net) =
        Some (502, Error_html ''bitrix_returned_html''
                     ''Bitrix returned HTML instead of JSON'' (status r) []
                     (take 200 (concat (chunks r))))"
    by (rule impI)
  from branch any none fourth fifth show ?thesis
    by (intro conjI)
qed

theorem json_predicate_exact_witness:
  "outbound (trace (exchangetoken sample_platform sample_env sample_body (\<lambda>rq. End mixed_reply))) =
     [sample_request]
   \<and> content_type mixed_reply = Some ''Application/JSON; Charset=UTF-8''
   \<and> response (exchangetoken sample_platform sample_env sample_body (\<lambda>rq. End mixed_reply)) =
       Some (200, Json token_payload)
   \<and> outbound (trace (exchangetoken sample_platform sample_env sample_body (\<lambda>rq. End bare_reply))) =
     [sample_request]
   \<and> content_type bare_reply = None
   \<and> response (exchangetoken sample_platform sample_env sample_body (\<lambda>rq. End bare_reply)) =
       Some (502, Error_html ''bitrix_returned_html'' ''Bitrix returned HTML instead of JSON''
                    200 [] token_body)"
proof -
  have none: "content_type bare_reply = None"
    by (simp add: bare_reply_def)
  have mixed: "content_type mixed_reply = Some ''Application/JSON; Charset=UTF-8''"
    "status mixed_reply = 200"
    "concat (chunks mixed_reply) = token_body"
    by (simp_all add: mixed_reply_def token_body_def)
  have short: "take 200 token_body = token_body"
    by (simp add: token_body_def dq_def)
  have "toLowerCase ''Application/JSON; Charset=UTF-8'' =
      [] @ ''application/json'' @ ''; charset=utf-8''"
    by (simp add: toLowerCase_def lower_char_def is_upper_def char_of_eq_iff)
  then have "\<exists>u v. toLowerCase (case content_type mixed_reply of None \<Rightarrow> [] | Some ct \<Rightarrow> ct) =
      u @ ''application/json'' @ v"
    unfolding mixed(1) by (simp only: option.case) blast
  then have json: "response (exchangetoken sample_platform sample_env sample_body (\<lambda>rq. End mixed_reply)) =
       Some (200, Json token_payload)"
    using json_predicate_exact [OF sample_outbound [of "\<lambda>rq. End mixed_reply"] refl]
    by (simp add: mixed(2,3) sample_platform_def)
  have bare: "response (exchangetoken sample_platform sample_env sample_body (\<lambda>rq. End bare_reply)) =
       Some (502, Error_html ''bitrix_returned_html'' ''Bitrix returned HTML instead of JSON''
                    200 [] token_body)"
    using json_predicate_exact [OF sample_outbound [of "\<lambda>rq. End bare_reply"] refl] none
    by (simp add: bare_reply_def short)
  from json bare none mixed(1) sample_outbound show ?thesis by simp
qed

text \<open>
  C9. The classification ignores the letter case of the content type: with two content
  types that differ only in letter case, the response is read the same way and the
  whole result of the call, answer and effects, is the same.
\<close>

theorem content_type_case_ignored:
  assumes "differ_only_in_case ct ct'"
  shows "includes_str (contentType (on_end (r\<lparr>content_type := Some ct\<rparr>))) ''application/json'' =
         includes_str (contentType (on_end (r\<lparr>content_type := Some ct'\<rparr>))) ''application/json''
       \<and> exchangetoken P env b (\<lambda>rq. End ((upstream rq)\<lparr>content_type := Some ct\<rparr>)) =
         exchangetoken P env b (\<lambda>rq. End ((upstream rq)\<lparr>content_type := Some ct'\<rparr>))"
proof -
  from assms have low: "toLowerCase ct = toLowerCase ct'"
    by (rule differ_only_in_case_lower)
  then have same: "on_end (x\<lparr>content_type := Some ct\<rparr>) = on_end (x\<lparr>content_type := Some ct'\<rparr>)" for x
    by (simp add: on_end_def Let_def)
  then have "await_response (\<lambda>rq. End ((upstream rq)\<lparr>content_type := Some ct\<rparr>)) rq =
      await_response (\<lambda>rq. End ((upstream rq)\<lparr>content_type := Some ct'\<rparr>)) rq" for rq
    by (simp add: await_response_def)
  then have "try_block P env b (\<lambda>rq. End ((upstream rq)\<lparr>content_type := Some ct\<rparr>)) =
      try_block P env b (\<lambda>rq. End ((upstream rq)\<lparr>content_type := Some ct'\<rparr>))"
    by (rule try_block_cong)
  then show ?thesis using same [of r] by (simp add: exchangetoken_def)
qed

theorem content_type_case_ignored_witness:
  "differ_only_in_case ''Application/JSON'' ''application/json''
   \<and> exchangetoken sample_platform sample_env sample_body
       (\<lambda>rq. End (json_reply\<lparr>content_type := Some ''Application/JSON''\<rparr>)) =
     exchangetoken sample_platform sample_env sample_body
       (\<lambda>rq. End (json_reply\<lparr>content_type := Some ''application/json''\<rparr>))
   \<and> includes_str
       (contentType (on_end (json_reply\<lparr>content_type := Some ''Application/JSON''\<rparr>)))
       ''application/json''"
proof -
  have h: "differ_only_in_case ''Application/JSON'' ''application/json''"
    by (simp add: differ_only_in_case_def case_variant_def is_upper_def)
  have j: "json_reply\<lparr>content_type := Some ''application/json''\<rparr> = json_reply"
    by (simp add: json_reply_def)
  show ?thesis
    using h sample_json
      content_type_case_ignored [OF h, of json_reply sample_platform sample_env sample_body
        "\<lambda>rq. json_reply"]
    by (simp add: j)
qed

section \<open>Exceptions\<close>

text \<open>
  C7. The handler has no error kind of its own for a body that claims to be JSON and
  does not parse. The error of \<^verbatim>\<open>JSON.parse\<close> reaches the \<^verbatim>\<open>catch\<close> of the
  handler, and the call is answered with status 500, error kind \<^verbatim>\<open>exception\<close> and
  the message of the parser.
\<close>

theorem malformed_json_caught:
  assumes "outbound (trace (exchangetoken P env b net)) = [rq]"
    and "net rq = End r"
    and "includes_str (contentType (on_end r)) ''application/json''"
    and "JSON_parse P (body (on_end r)) = Inl m"
  shows "response (exchangetoken P env b net) = Some (500, Error_message ''exception'' m)"
  using response_after_request [OF assms(1)] assms(2) classify_malformed [OF assms(3,4)]
  by simp

theorem malformed_json_caught_witness:
  "outbound (trace (exchangetoken sample_platform sample_env sample_body (\<lambda>rq. End broken_reply))) =
     [sample_request]
   \<and> includes_str (contentType (on_end broken_reply)) ''application/json''
   \<and> JSON_parse sample_platform (body (on_end broken_reply)) =
       Inl ''Unexpected token < in JSON at position 0''
   \<and> response (exchangetoken sample_platform sample_env sample_body (\<lambda>rq. End broken_reply)) =
       Some (500, Error_message ''exception'' ''Unexpected token < in JSON at position 0'')"
  using sample_outbound [of "\<lambda>rq. End broken_reply"] sample_broken
    malformed_json_caught [OF sample_outbound [of "\<lambda>rq. End broken_reply"] refl sample_broken]
  by simp

text \<open>
  The kind is shared: on the sample call a body that does not parse, a failure of the
  transport and a domain that is not a valid host are all answered with the error kind
  \<^verbatim>\<open>exception\<close>.
\<close>

theorem malformed_json_kind_shared:
  "map_option (\<lambda>(s, b). error_kind b)
     (response (exchangetoken sample_platform sample_env sample_body (\<lambda>rq. End broken_reply))) =
   Some (Some ''exception'')
   \<and> map_option (\<lambda>(s, b). error_kind b)
     (response (exchangetoken sample_platform sample_env sample_body (\<lambda>rq. Error ''socket hang up''))) =
   Some (Some ''exception'')
   \<and> map_option (\<lambda>(s, b). error_kind b)
     (response (exchangetoken sample_platform sample_env
        (sample_body(''domain'' \<mapsto> JStr ''a b'')) (\<lambda>rq. End json_reply))) =
   Some (Some ''exception'')"
proof -
  have 1: "response (exchangetoken sample_platform sample_env sample_body (\<lambda>rq. End broken_reply)) =
      Some (500, Error_message ''exception'' ''Unexpected token < in JSON at position 0'')"
    using response_after_request [OF sample_outbound [of "\<lambda>rq. End broken_reply"]]
      classify_malformed [OF sample_broken]
    by simp
  have 2: "response (exchangetoken sample_platform sample_env sample_body (\<lambda>rq. Error ''socket hang up'')) =
      Some (500, Error_message ''exception'' ''socket hang up'')"
    using response_after_request [OF sample_outbound [of "\<lambda>rq. Error ''socket hang up''"]]
    by simp
  have 3: "response (exchangetoken sample_platform sample_env
        (sample_body(''domain'' \<mapsto> JStr ''a b'')) (\<lambda>rq. End json_reply)) =
      Some (500, Error_message ''exception'' ''Invalid URL'')"
    by (simp add: exchangetoken_def try_block_def exchange_def step_simps lift_simps log_def
      log_params_def sample_platform_def sample_env_def sample_body_def property_def
      truthy_env_def str_def tokenUrl_of_def postData_of_def startsWith_def Let_def
      del: URLSearchParams_toString.simps)
  show ?thesis by (simp add: 1 2 3)
qed

text \<open>
  C8. A call sends at most one request. When the request fails in the transport (the
  request emits \<^verbatim>\<open>error\<close>), the promise is rejected with that error, which
  reaches the \<^verbatim>\<open>catch\<close> of the handler: the call is answered with status 500, error
  kind \<^verbatim>\<open>exception\<close> and the message of the error. Nothing is sent again: the
  request that failed is the only one. The handler has no error kind of its own for an
  upstream it cannot reach.
\<close>

theorem transport_failure_surfaced:
  "length (outbound (trace (exchangetoken P env b net))) \<le> 1
   \<and> (\<forall>rq m. outbound (trace (exchangetoken P env b net)) = [rq] \<and> net rq = Error m \<longrightarrow>
         response (exchangetoken P env b net) = Some (500, Error_message ''exception'' m))"
proof (intro conjI allI impI)
  show "length (outbound (trace (exchangetoken P env b net))) \<le> 1"
    by (rule outbound_at_most_one)
next
  fix rq m
  assume "outbound (trace (exchangetoken P env b net)) = [rq] \<and> net rq = Error m"
  then show "response (exchangetoken P env b net) = Some (500, Error_message ''exception'' m)"
    using response_after_request [of P env b net rq] by simp
qed

theorem transport_failure_surfaced_witness:
  "outbound (trace (exchangetoken sample_platform sample_env sample_body
       (\<lambda>rq. Error ''getaddrinfo ENOTFOUND acme.bitrix24.com''))) = [sample_request]
   \<and> response (exchangetoken sample_platform sample_env sample_body
       (\<lambda>rq. Error ''getaddrinfo ENOTFOUND acme.bitrix24.com'')) =
     Some (500, Error_message ''exception'' ''getaddrinfo ENOTFOUND acme.bitrix24.com'')"
  using sample_outbound [of "\<lambda>rq. Error ''getaddrinfo ENOTFOUND acme.bitrix24.com''"]
    transport_failure_surfaced [of sample_platform sample_env sample_body
      "\<lambda>rq. Error ''getaddrinfo ENOTFOUND acme.bitrix24.com''"]
  by simp

text \<open>
  The kind says nothing of the upstream: a call whose code is a number ends in the same
  \<^verbatim>\<open>catch\<close> before any request is sent, and is answered with the same error kind as
  a call whose request failed.
\<close>

theorem unreachable_kind_generic:
  "map_option (\<lambda>(s, b). error_kind b)
     (response (exchangetoken sample_platform sample_env sample_body (\<lambda>rq. Error ''socket hang up''))) =
   Some (Some ''exception'')
   \<and> outbound (trace (exchangetoken sample_platform sample_env
        (sample_body(''oauth_code'' \<mapsto> JNum 5)) (\<lambda>rq. End json_reply))) = []
   \<and> map_option (\<lambda>(s, b). error_kind b)
     (response (exchangetoken sample_platform sample_env
        (sample_body(''oauth_code'' \<mapsto> JNum 5)) (\<lambda>rq. End json_reply))) =
   Some (Some ''exception'')"
proof -
  have 1: "response (exchangetoken sample_platform sample_env sample_body (\<lambda>rq. Error ''socket hang up'')) =
      Some (500, Error_message ''exception'' ''socket hang up'')"
    using response_after_request [OF sample_outbound [of "\<lambda>rq. Error ''socket hang up''"]]
    by simp
  have 2: "exchangetoken sample_platform sample_env
        (sample_body(''oauth_code'' \<mapsto> JNum 5)) (\<lambda>rq. End json_reply) =
      \<lparr>response = Some (500, Error_message ''exception'' not_a_function),
       trace = [Log_received, Log_calling ''https://acme.bitrix24.com/oauth/token/'',
                Log_exception not_a_function, Log_stack]\<rparr>"
    by (simp add: exchangetoken_def try_block_def exchange_def step_simps lift_simps log_def
      log_params_def sample_platform_def sample_env_def sample_body_def property_def
      truthy_env_def str_def tokenUrl_of_def postData_of_def startsWith_def show_int_def Let_def
      del: URLSearchParams_toString.simps)
  show ?thesis by (simp add: 1 2)
qed

end
